theory Spec2Isabelle
  imports Complex_Main "HOL-Library.Word" "HOL-Library.Log_Nat"
begin

unbundle bit_operations_syntax

section \<open>Data model of package minhash\<close>

text \<open>
  Go's \<^verbatim>\<open>byte\<close> is an 8-bit word and \<^verbatim>\<open>uint64\<close> a 64-bit word.  Go's
  \<^verbatim>\<open>int\<close> and \<^verbatim>\<open>uint\<close> are modelled at their 64-bit width (the width on
  every 64-bit platform); a signed integer is the word read through \<open>sint\<close>.
  A Go \<^verbatim>\<open>string\<close> is a sequence of bytes: \<open>string\<close>, converted to a byte
  slice by \<open>of_char\<close> on every character.
\<close>

type_synonym byte = "8 word"
type_synonym uint64 = "64 word"
type_synonym int64 = "64 word"

text \<open>\<^verbatim>\<open>type Signature []uint64\<close>\<close>

type_synonym Signature = "uint64 list"

text \<open>\<^verbatim>\<open>infinity uint64 = math.MaxUint64\<close>\<close>

definition infinity :: uint64 where
  "infinity = 18446744073709551615"

text \<open>
  A run-time panic of the Go program, by its cause.  \<open>FatalOutOfMemory\<close> is the fatal
  error with which the runtime ends the program when the operating system has no memory
  left for an allocation.
\<close>

datatype panic =
    MakeSliceLenOutOfRange
  | FatalOutOfMemory
  | InterfaceConversion
  | IndexOutOfRange

text \<open>\<^verbatim>\<open>[]byte(s)\<close> for a string \<open>s\<close>.\<close>

definition bytes_of_string :: "string \<Rightarrow> byte list" where
  "bytes_of_string s = map of_char s"

subsection \<open>defaultSignature\<close>

text \<open>
  What \<^verbatim>\<open>make\<close> depends on outside the program: \<open>maxAlloc\<close> is the runtime's
  constant of that name, the largest number of bytes of one allocation, and
  \<open>available\<close> the number of bytes the runtime can still obtain from the operating
  system.
\<close>

record runtime =
  maxAlloc :: int
  available :: int

text \<open>On amd64 \<open>maxAlloc\<close> is \<open>2^48\<close>, the size of the address space of the heap.\<close>

definition maxAlloc_amd64 :: int where
  "maxAlloc_amd64 = 2 ^ 48"

text \<open>
  \<^verbatim>\<open>make(Signature, size)\<close>, the runtime's \<^verbatim>\<open>makeslice\<close> for elements of 8 bytes
  (the parameter \<^verbatim>\<open>size\<close>, a Go \<^verbatim>\<open>int\<close>, is written \<open>sz\<close>).  It panics with
  "makeslice: len out of range" when the length is negative or the \<open>8 * size\<close> bytes
  exceed \<open>maxAlloc\<close>; the program ends with a fatal error when the memory is not
  available; otherwise the result has \<open>size\<close> zeroed slots.
\<close>

definition make_Signature :: "runtime \<Rightarrow> int64 \<Rightarrow> panic + Signature" where
  "make_Signature rt sz =
     (if sint sz < 0 \<or> maxAlloc rt < 8 * sint sz then Inl MakeSliceLenOutOfRange
      else if available rt < 8 * sint sz then Inl FatalOutOfMemory
      else Inr (replicate (nat (sint sz)) 0))"

text \<open>\<^verbatim>\<open>for i := range s { s[i] = infinity }\<close>, from index \<open>i\<close> on.\<close>

function defaultSignature_loop :: "nat \<Rightarrow> Signature \<Rightarrow> Signature" where
  "defaultSignature_loop i s =
     (if i < length s then defaultSignature_loop (Suc i) (s[i := infinity]) else s)"
  by pat_completeness auto
termination
  by (relation "measure (\<lambda>(i, s). length s - i)") auto

declare defaultSignature_loop.simps [simp del]

definition defaultSignature :: "runtime \<Rightarrow> int64 \<Rightarrow> panic + Signature" where
  "defaultSignature rt sz =
     (case make_Signature rt sz of
        Inl p \<Rightarrow> Inl p
      | Inr s \<Rightarrow> Inr (defaultSignature_loop 0 s))"

subsection \<open>toBytes\<close>

text \<open>
  The dynamic value held by the \<^verbatim>\<open>interface{}\<close> argument of \<^verbatim>\<open>toBytes\<close>: one
  constructor for each type named in the type switch, and \<open>VOther\<close> for a value of any
  other dynamic type (\<^verbatim>\<open>uint8\<close>, \<^verbatim>\<open>float64\<close>, \<^verbatim>\<open>nil\<close>, ...).
\<close>

datatype val =
    VBytes "byte list"
  | VString string
  | VUint "64 word"
  | VUint16 "16 word"
  | VUint32 "32 word"
  | VUint64 uint64
  | VInt "64 word"
  | VInt16 "16 word"
  | VInt32 "32 word"
  | VInt64 int64
  | VOther

text \<open>
  The type assertions \<^verbatim>\<open>t.(uint64)\<close> and \<^verbatim>\<open>t.(int64)\<close>.  In a case of a type
  switch that lists several types, \<open>t\<close> keeps the static type \<^verbatim>\<open>interface{}\<close>, and
  the assertion panics unless the dynamic type is exactly the asserted one.
\<close>

fun assert_uint64 :: "val \<Rightarrow> panic + uint64" where
  "assert_uint64 (VUint64 v) = Inr v"
| "assert_uint64 _ = Inl InterfaceConversion"

fun assert_int64 :: "val \<Rightarrow> panic + int64" where
  "assert_int64 (VInt64 v) = Inr v"
| "assert_int64 _ = Inl InterfaceConversion"

text \<open>
  \<^verbatim>\<open>binary.LittleEndian.PutUint64(b, v)\<close>: a bounds check on \<open>b[7]\<close>, then
  \<open>b[i] = byte(v >> (8 * i))\<close> for the first eight bytes of \<open>b\<close>.
\<close>

definition PutUint64 :: "byte list \<Rightarrow> uint64 \<Rightarrow> panic + byte list" where
  "PutUint64 b v =
     (if length b \<le> 7 then Inl IndexOutOfRange
      else Inr (b[0 := ucast v,
                  1 := ucast (drop_bit 8 v),
                  2 := ucast (drop_bit 16 v),
                  3 := ucast (drop_bit 24 v),
                  4 := ucast (drop_bit 32 v),
                  5 := ucast (drop_bit 40 v),
                  6 := ucast (drop_bit 48 v),
                  7 := ucast (drop_bit 56 v)]))"

text \<open>
  \<^verbatim>\<open>uint64(x)\<close> for \<open>x\<close> of type \<^verbatim>\<open>int64\<close> keeps the bits; both types are
  64-bit words here.
\<close>

definition uint64_of_int64 :: "int64 \<Rightarrow> uint64" where
  "uint64_of_int64 x = x"

definition toBytes :: "val \<Rightarrow> panic + byte list" where
  "toBytes x =
     (let b = replicate 8 (0 :: byte) in
      case x of
        VBytes t \<Rightarrow> Inr t
      | VString t \<Rightarrow> Inr (bytes_of_string t)
      | VUint _ \<Rightarrow> (case assert_uint64 x of Inl p \<Rightarrow> Inl p | Inr v \<Rightarrow> PutUint64 b v)
      | VUint16 _ \<Rightarrow> (case assert_uint64 x of Inl p \<Rightarrow> Inl p | Inr v \<Rightarrow> PutUint64 b v)
      | VUint32 _ \<Rightarrow> (case assert_uint64 x of Inl p \<Rightarrow> Inl p | Inr v \<Rightarrow> PutUint64 b v)
      | VUint64 _ \<Rightarrow> (case assert_uint64 x of Inl p \<Rightarrow> Inl p | Inr v \<Rightarrow> PutUint64 b v)
      | VInt _ \<Rightarrow>
          (case assert_int64 x of Inl p \<Rightarrow> Inl p | Inr v \<Rightarrow> PutUint64 b (uint64_of_int64 v))
      | VInt16 _ \<Rightarrow>
          (case assert_int64 x of Inl p \<Rightarrow> Inl p | Inr v \<Rightarrow> PutUint64 b (uint64_of_int64 v))
      | VInt32 _ \<Rightarrow>
          (case assert_int64 x of Inl p \<Rightarrow> Inl p | Inr v \<Rightarrow> PutUint64 b (uint64_of_int64 v))
      | VInt64 _ \<Rightarrow>
          (case assert_int64 x of Inl p \<Rightarrow> Inl p | Inr v \<Rightarrow> PutUint64 b (uint64_of_int64 v))
      | VOther \<Rightarrow> Inr b)"

text \<open>The 8-byte little-endian encoding of a 64-bit value, least significant byte first.\<close>

definition le_bytes8 :: "uint64 \<Rightarrow> byte list" where
  "le_bytes8 v = map (\<lambda>i. ucast (drop_bit (8 * i) v)) [0..<8]"

subsection \<open>strconv.ParseUint\<close>

text \<open>
  \<^verbatim>\<open>stringIntToByte\<close> calls \<^verbatim>\<open>strconv.ParseUint(s, 0, 64)\<close> of Go's standard
  library.  The model follows the library function (as of Go 1.13 and later) statement
  by statement.  It returns the pair \<^verbatim>\<open>(uint64, error)\<close>, the error being \<open>None\<close> for
  \<^verbatim>\<open>nil\<close>.  With base 0 the base is taken from the prefix of the string: \<open>0b\<close> is
  binary, \<open>0o\<close> or a plain leading \<open>0\<close> octal, \<open>0x\<close> hexadecimal, anything else
  decimal; underscores may separate digits.  Earlier releases differ only in rejecting
  the prefixes \<open>0b\<close> and \<open>0o\<close> and the underscores.  Characters are given by their
  codes: \<open>48\<close> to \<open>57\<close> are the digits, \<open>97\<close> to \<open>122\<close> the lower-case letters,
  \<open>95\<close> the underscore, \<open>43\<close> and \<open>45\<close> the signs.
\<close>

datatype NumError = ErrSyntax | ErrRange | ErrBase | ErrBitSize

text \<open>\<^verbatim>\<open>lower(c) = c | ('x' - 'X')\<close>\<close>

definition lower :: "byte \<Rightarrow> byte" where
  "lower c = c OR 32"

text \<open>\<^verbatim>\<open>underscoreOK\<close>: the loop over the number proper, with the last character seen.\<close>

fun underscoreOK_loop :: "bool \<Rightarrow> byte \<Rightarrow> byte list \<Rightarrow> bool" where
  "underscoreOK_loop hex saw [] = (saw \<noteq> 95)"
| "underscoreOK_loop hex saw (c # cs) =
     (if (48 \<le> c \<and> c \<le> 57) \<or> (hex \<and> 97 \<le> lower c \<and> lower c \<le> 102)
      then underscoreOK_loop hex 48 cs
      else if c = 95
      then (if saw \<noteq> 48 then False else underscoreOK_loop hex 95 cs)
      else if saw = 95 then False
      else underscoreOK_loop hex 33 cs)"

definition underscoreOK :: "byte list \<Rightarrow> bool" where
  "underscoreOK s0 =
     (let s = (if 1 \<le> length s0 \<and> (s0 ! 0 = 45 \<or> s0 ! 0 = 43) then drop 1 s0 else s0) in
      if 2 \<le> length s \<and> s ! 0 = 48 \<and>
         (lower (s ! 1) = 98 \<or> lower (s ! 1) = 111 \<or> lower (s ! 1) = 120)
      then underscoreOK_loop (lower (s ! 1) = 120) 48 (drop 2 s)
      else underscoreOK_loop False 94 s)"

text \<open>
  The digit loop of \<^verbatim>\<open>ParseUint\<close>.  The state is the flag \<open>underscores\<close> and the
  accumulator \<open>n\<close>; an early return gives \<open>Inl\<close> of the returned pair.
\<close>

fun ParseUint_loop ::
  "bool \<Rightarrow> nat \<Rightarrow> uint64 \<Rightarrow> uint64 \<Rightarrow> byte list \<Rightarrow> bool \<Rightarrow> uint64
     \<Rightarrow> (uint64 \<times> NumError) + (bool \<times> uint64)" where
  "ParseUint_loop base0 base cutoff maxVal [] underscores n = Inr (underscores, n)"
| "ParseUint_loop base0 base cutoff maxVal (c # cs) underscores n =
     (if c = 95 \<and> base0 then ParseUint_loop base0 base cutoff maxVal cs True n
      else if \<not> ((48 \<le> c \<and> c \<le> 57) \<or> (97 \<le> lower c \<and> lower c \<le> 122))
      then Inl (0, ErrSyntax)
      else
        let d = (if 48 \<le> c \<and> c \<le> 57 then c - 48 else lower c - 97 + 10) in
        if d \<ge> of_nat base then Inl (0, ErrSyntax)
        else if n \<ge> cutoff then Inl (maxVal, ErrRange)
        else
          let n' = n * of_nat base;
              n1 = n' + ucast d
          in if n1 < n' \<or> n1 > maxVal then Inl (maxVal, ErrRange)
             else ParseUint_loop base0 base cutoff maxVal cs underscores n1)"

text \<open>The base and the remaining digits chosen by the prefix when \<open>base = 0\<close>.\<close>

definition base_prefix :: "byte list \<Rightarrow> nat \<times> byte list" where
  "base_prefix s =
     (if s ! 0 = 48 then
        (if 3 \<le> length s \<and> lower (s ! 1) = 98 then (2, drop 2 s)
         else if 3 \<le> length s \<and> lower (s ! 1) = 111 then (8, drop 2 s)
         else if 3 \<le> length s \<and> lower (s ! 1) = 120 then (16, drop 2 s)
         else (8, drop 1 s))
      else (10, s))"

definition ParseUint :: "string \<Rightarrow> int \<Rightarrow> int \<Rightarrow> uint64 \<times> NumError option" where
  "ParseUint str base bitSize =
     (let s0 = bytes_of_string str in
      if s0 = [] then (0, Some ErrSyntax)
      else if \<not> (2 \<le> base \<and> base \<le> 36) \<and> base \<noteq> 0 then (0, Some ErrBase)
      else
        let base0 = (base = 0);
            (b, s) = (if base0 then base_prefix s0 else (nat base, s0));
            bits = (if bitSize = 0 then 64 else bitSize)
        in
        if bits < 0 \<or> bits > 64 then (0, Some ErrBitSize)
        else
          let cutoff = (18446744073709551615 :: uint64) div of_nat b + 1;
              maxVal = push_bit (nat bits) (1 :: uint64) - 1
          in case ParseUint_loop base0 b cutoff maxVal s False 0 of
               Inl (v, e) \<Rightarrow> (v, Some e)
             | Inr (underscores, n) \<Rightarrow>
                 if underscores \<and> \<not> underscoreOK s0 then (0, Some ErrSyntax)
                 else (n, None))"

subsection \<open>stringIntToByte\<close>

text \<open>
  The call \<^verbatim>\<open>log.Println\<close> on the error path writes to the process log and has no
  effect on the value returned; it is left out.
\<close>

definition stringIntToByte :: "string \<Rightarrow> panic + byte list" where
  "stringIntToByte s =
     (case ParseUint s 0 64 of
        (n, Some err) \<Rightarrow> Inr (bytes_of_string s)
      | (n, None) \<Rightarrow> toBytes (VUint64 n))"

subsection \<open>The MinWise sketch\<close>

text \<open>\<^verbatim>\<open>type HashFunc func([]byte) uint64\<close>\<close>

type_synonym HashFunc = "byte list \<Rightarrow> uint64"

text \<open>
  The implementation of the \<^verbatim>\<open>MinHash\<close> interface by the MinWise sketch (its
  constructor, \<^verbatim>\<open>Push\<close> and \<^verbatim>\<open>Merge\<close>) is not among the source files; only the
  interface is.  The definitions of this subsection follow the specification's
  sections 3, 4.1, 4.2 and 7.
\<close>

datatype sketch_error = IncompatibilityError

text \<open>
  Modelled from the spec: the HashFamily, which "holds references to one or two base hash
  capabilities and an integer k"; the MinWise variant uses the two base hashes \<open>h1\<close>
  and \<open>h2\<close>; the field \<open>fam_k\<close> is the integer k.
\<close>

record HashFamily =
  h1 :: HashFunc
  h2 :: HashFunc
  fam_k :: nat

text \<open>
  Modelled from the spec: the virtual hash function of slot \<open>i\<close>,
  \<open>slot_i(x) = h1(x) + i * h2(x)\<close> for \<open>i = 1..k\<close>, in wrapping 64-bit arithmetic.
\<close>

definition slot :: "HashFamily \<Rightarrow> nat \<Rightarrow> byte list \<Rightarrow> uint64" where
  "slot fam i x = h1 fam x + of_nat i * h2 fam x"

text \<open>
  Modelled from the spec: a SketchEngine instance "owns exactly one Signature and one
  HashFamily reference".
\<close>

record SketchEngine =
  signature :: Signature
  family :: HashFamily

text \<open>
  Modelled from the spec: a sketch is "created empty (all-sentinel signature)", with one
  slot for each of the \<open>k\<close> virtual hash functions.
\<close>

definition NewSketch :: "HashFamily \<Rightarrow> SketchEngine" where
  "NewSketch fam = \<lparr>signature = replicate (fam_k fam) infinity, family = fam\<rparr>"

text \<open>
  Modelled from the spec: Ingest updates
  \<open>signature[i] = min(signature[i], slot_i(bytes))\<close> for every slot.  The element is
  given by its bytes (the conversion to bytes is an external collaborator in the
  specification).  The slot at list position \<open>j\<close> (from 0) belongs to the virtual hash
  function \<open>j + 1\<close>.
\<close>

definition Ingest :: "SketchEngine \<Rightarrow> byte list \<Rightarrow> SketchEngine" where
  "Ingest e x =
     e\<lparr>signature :=
         map (\<lambda>j. min (signature e ! j) (slot (family e) (Suc j) x))
           [0..<length (signature e)]\<rparr>"

text \<open>Modelled from the spec: streaming ingestion of a sequence of elements.\<close>

fun IngestAll :: "SketchEngine \<Rightarrow> byte list list \<Rightarrow> SketchEngine" where
  "IngestAll e [] = e"
| "IngestAll e (x # xs) = IngestAll (Ingest e x) xs"

text \<open>
  Modelled from the spec: Merge "sets \<open>signature[i] = min(signature[i], other.signature[i])\<close>
  for all i" and "fails (reports an incompatibility error) if lengths differ", in
  which case nothing is changed.
\<close>

definition Merge :: "SketchEngine \<Rightarrow> SketchEngine \<Rightarrow> sketch_error + SketchEngine" where
  "Merge e other =
     (if length (signature e) \<noteq> length (signature other) then Inl IncompatibilityError
      else Inr (e\<lparr>signature :=
                    map (\<lambda>j. min (signature e ! j) (signature other ! j))
                      [0..<length (signature e)]\<rparr>))"

subsection \<open>float64\<close>

text \<open>
  Go's \<^verbatim>\<open>float64\<close> is the IEEE 754 binary64 format.  A value is a finite rational
  (\<open>Finite 0\<close> is the positive zero), the negative zero, an infinity or a NaN.  Each
  arithmetic operation returns the exact result rounded to the nearest representable
  value, ties to the even significand: 53 significant bits, exponents from \<open>-1022\<close> to
  \<open>1023\<close>, gradual underflow below \<open>2^-1022\<close>, overflow to infinity from \<open>2^1024\<close>.
  The operations below round their results, so they return values of the format
  whatever rationals they are given; \<open>is_float64\<close> tells whether a value belongs to
  the format.
\<close>

datatype float64 = Finite rat | NegZero | PosInf | NegInf | NaN

text \<open>The binary exponent of a positive rational: \<open>2^e \<le> x < 2^(e+1)\<close>.\<close>

definition ilog2 :: "rat \<Rightarrow> int" where
  "ilog2 x = (if 1 \<le> x then bitlen \<lfloor>x\<rfloor> - 1 else - bitlen (\<lceil>1 / x\<rceil> - 1))"

definition round_half_even :: "rat \<Rightarrow> int" where
  "round_half_even r =
     (let f = \<lfloor>r\<rfloor>; d = r - of_int f in
      if d < 1 / 2 then f
      else if 1 / 2 < d then f + 1
      else if even f then f else f + 1)"

text \<open>The spacing of the binary64 values around a positive rational.\<close>

definition ulp :: "rat \<Rightarrow> rat" where
  "ulp x = 2 powi (max (ilog2 x) (- 1022) - 52)"

text \<open>Rounding of a positive rational; \<open>None\<close> is overflow.\<close>

definition round64_pos :: "rat \<Rightarrow> rat option" where
  "round64_pos x =
     (let y = of_int (round_half_even (x / ulp x)) * ulp x in
      if 2 ^ 1024 \<le> y then None else Some y)"

definition round64 :: "rat \<Rightarrow> float64" where
  "round64 x =
     (if x = 0 then Finite 0
      else if 0 < x then (case round64_pos x of None \<Rightarrow> PosInf | Some y \<Rightarrow> Finite y)
      else (case round64_pos (- x) of
              None \<Rightarrow> NegInf
            | Some y \<Rightarrow> if y = 0 then NegZero else Finite (- y)))"


fun is_nan :: "float64 \<Rightarrow> bool" where
  "is_nan NaN = True"
| "is_nan _ = False"

fun is_inf :: "float64 \<Rightarrow> bool" where
  "is_inf PosInf = True"
| "is_inf NegInf = True"
| "is_inf _ = False"

fun is_zero :: "float64 \<Rightarrow> bool" where
  "is_zero (Finite r) = (r = 0)"
| "is_zero NegZero = True"
| "is_zero _ = False"

text \<open>The sign bit.\<close>

fun signbit :: "float64 \<Rightarrow> bool" where
  "signbit (Finite r) = (r < 0)"
| "signbit NegZero = True"
| "signbit NegInf = True"
| "signbit _ = False"

text \<open>The rational value of a finite float.\<close>

fun valof :: "float64 \<Rightarrow> rat" where
  "valof (Finite r) = r"
| "valof _ = 0"

definition signed_zero :: "bool \<Rightarrow> float64" where
  "signed_zero neg = (if neg then NegZero else Finite 0)"

definition signed_inf :: "bool \<Rightarrow> float64" where
  "signed_inf neg = (if neg then NegInf else PosInf)"

text \<open>\<^verbatim>\<open>a == b\<close> on \<^verbatim>\<open>float64\<close>: a NaN equals nothing, the two zeros are equal.\<close>

definition float64_eq :: "float64 \<Rightarrow> float64 \<Rightarrow> bool" where
  "float64_eq a b =
     (if is_nan a \<or> is_nan b then False
      else if is_zero a \<and> is_zero b then True
      else a = b)"

text \<open>\<^verbatim>\<open>a / b\<close> on \<^verbatim>\<open>float64\<close>; a division by zero does not panic.\<close>

definition fdiv :: "float64 \<Rightarrow> float64 \<Rightarrow> float64" where
  "fdiv a b =
     (let neg = (signbit a \<noteq> signbit b) in
      if is_nan a \<or> is_nan b then NaN
      else if is_inf a \<and> is_inf b then NaN
      else if is_zero a \<and> is_zero b then NaN
      else if is_inf a then signed_inf neg
      else if is_inf b then signed_zero neg
      else if is_zero b then signed_inf neg
      else if is_zero a then signed_zero neg
      else round64 (valof a / valof b))"

text \<open>\<^verbatim>\<open>a + b\<close> on \<^verbatim>\<open>float64\<close>.\<close>

definition fadd :: "float64 \<Rightarrow> float64 \<Rightarrow> float64" where
  "fadd a b =
     (if is_nan a \<or> is_nan b then NaN
      else if is_inf a then (if is_inf b \<and> a \<noteq> b then NaN else a)
      else if is_inf b then b
      else if is_zero a \<and> is_zero b then signed_zero (signbit a \<and> signbit b)
      else if valof a + valof b = 0 then Finite 0
      else round64 (valof a + valof b))"

text \<open>\<^verbatim>\<open>math.Floor\<close>: zeros, infinities and NaN are returned unchanged.\<close>

fun Floor :: "float64 \<Rightarrow> float64" where
  "Floor (Finite r) = Finite (of_int \<lfloor>r\<rfloor>)"
| "Floor f = f"

text \<open>\<^verbatim>\<open>float64(x)\<close> for \<open>x\<close> of type \<^verbatim>\<open>int\<close>.\<close>

definition float64_of_int :: "int64 \<Rightarrow> float64" where
  "float64_of_int x = round64 (of_int (sint x))"

text \<open>
  \<^verbatim>\<open>int(f)\<close> for \<open>f\<close> of type \<^verbatim>\<open>float64\<close>: the fraction is discarded (truncation
  towards zero).  When the value is a NaN, an infinity or outside the range of
  \<^verbatim>\<open>int\<close>, the conversion succeeds with an implementation-dependent result; the
  parameter \<open>indef\<close> is the implementation's choice.
\<close>

definition int_of_float64 :: "(float64 \<Rightarrow> int64) \<Rightarrow> float64 \<Rightarrow> int64" where
  "int_of_float64 indef f =
     (case f of
        Finite r \<Rightarrow>
          (let t = (if 0 \<le> r then \<lfloor>r\<rfloor> else \<lceil>r\<rceil>) in
           if - (2 ^ 63) \<le> t \<and> t < 2 ^ 63 then word_of_int t else indef f)
      | NegZero \<Rightarrow> 0
      | _ \<Rightarrow> indef f)"

subsection \<open>Intersection\<close>

text \<open>
  \<^verbatim>\<open>size1 + size2\<close> is the wrapping addition of \<^verbatim>\<open>int\<close>; the constants \<open>0\<close>,
  \<open>1.0\<close> and \<open>1\<close> are exact \<^verbatim>\<open>float64\<close> values.  No step of the function can panic.
\<close>

definition Intersection :: "(float64 \<Rightarrow> int64) \<Rightarrow> float64 \<Rightarrow> int64 \<Rightarrow> int64 \<Rightarrow> int64" where
  "Intersection indef js size1 size2 =
     (if float64_eq js (Finite 0) then 0
      else int_of_float64 indef
             (Floor (fdiv (float64_of_int (size1 + size2))
                          (fadd (fdiv (Finite 1) js) (Finite 1)))))"



section \<open>Properties of the byte conversions\<close>

lemma replicate_8: "replicate 8 x = [x, x, x, x, x, x, x, x]"
  by (simp add: numeral_eq_Suc)

lemma PutUint64_buffer:
  "PutUint64 [b0, b1, b2, b3, b4, b5, b6, b7] v = Inr (le_bytes8 v)"
  by (simp add: PutUint64_def le_bytes8_def upt_rec numeral_eq_Suc)

lemma toBytes_uint64: "toBytes (VUint64 v) = Inr (le_bytes8 v)"
  by (simp add: toBytes_def replicate_8 PutUint64_buffer)

lemma toBytes_int64: "toBytes (VInt64 v) = Inr (le_bytes8 v)"
  by (simp add: toBytes_def replicate_8 PutUint64_buffer uint64_of_int64_def)

lemma length_le_bytes8: "length (le_bytes8 v) = 8"
  by (simp add: le_bytes8_def)

lemma defaultSignature_loop_eq:
  "defaultSignature_loop i s = take i s @ replicate (length s - i) infinity"
proof (induction i s rule: defaultSignature_loop.induct)
  case (1 i s)
  show ?case
  proof (cases "i < length s")
    case True
    have "defaultSignature_loop i s = defaultSignature_loop (Suc i) (s[i := infinity])"
      using True by (subst defaultSignature_loop.simps) simp
    also have "\<dots> = take (Suc i) (s[i := infinity]) @ replicate (length s - Suc i) infinity"
      using 1 True by simp
    also have "take (Suc i) (s[i := infinity]) = take i s @ [infinity]"
      using True by (simp add: take_Suc_conv_app_nth)
    also have "(take i s @ [infinity]) @ replicate (length s - Suc i) infinity
        = take i s @ replicate (Suc (length s - Suc i)) infinity"
      by simp
    also have "Suc (length s - Suc i) = length s - i"
      using True by simp
    finally show ?thesis .
  next
    case False
    then show ?thesis by (subst defaultSignature_loop.simps) simp
  qed
qed

lemma infinity_max: "w \<le> infinity"
proof -
  have "infinity = - 1" by (simp add: infinity_def)
  show ?thesis unfolding \<open>infinity = - 1\<close> by simp
qed

text \<open>
  C7, as claimed, fails for sizes beyond the allocation limit: on amd64, where
  \<open>maxAlloc\<close> is \<open>2^48\<close>, \<^verbatim>\<open>defaultSignature(2^45 + 1)\<close> asks for more than
  \<open>maxAlloc\<close> bytes, and \<^verbatim>\<open>make\<close> panics, however much memory is available.
\<close>

theorem defaultSignature_too_large_counterexample:
  "0 < sint (35184372088833 :: int64) \<and>
   defaultSignature \<lparr>maxAlloc = maxAlloc_amd64, available = maxAlloc_amd64\<rparr> 35184372088833
     = Inl MakeSliceLenOutOfRange"
  by (simp add: defaultSignature_def make_Signature_def maxAlloc_amd64_def)

text \<open>
  C7, amended.  For every positive size \<open>k\<close> whose \<open>8 * k\<close> bytes are within the
  runtime's allocation limit \<open>maxAlloc\<close> (on amd64: \<open>k \<le> 2^45\<close>) and within the
  available memory, \<^verbatim>\<open>defaultSignature(k)\<close> returns (without a panic) a signature of
  length \<open>k\<close> all of whose slots hold \<open>infinity\<close>, and \<open>infinity\<close> is the largest
  unsigned 64-bit value, \<open>2^64 - 1\<close>.
\<close>

theorem defaultSignature_all_infinity:
  assumes "0 < sint k" and "8 * sint k \<le> maxAlloc rt" and "8 * sint k \<le> available rt"
  shows "\<exists>s. defaultSignature rt k = Inr s \<and> int (length s) = sint k \<and>
           (\<forall>x \<in> set s. x = infinity) \<and>
           (\<forall>w :: uint64. w \<le> infinity) \<and> unat infinity = 2 ^ 64 - 1"
proof -
  have "defaultSignature rt k = Inr (replicate (nat (sint k)) infinity)"
    using assms by (simp add: defaultSignature_def make_Signature_def defaultSignature_loop_eq)
  moreover have "int (length (replicate (nat (sint k)) infinity)) = sint k"
    using assms by simp
  moreover have "unat infinity = 2 ^ 64 - 1"
    by (simp add: infinity_def)
  ultimately show ?thesis
    using infinity_max by auto
qed

theorem defaultSignature_all_infinity_witness:
  "0 < sint (3 :: int64) \<and>
   8 * sint (3 :: int64) \<le> maxAlloc \<lparr>maxAlloc = maxAlloc_amd64, available = maxAlloc_amd64\<rparr> \<and>
   8 * sint (3 :: int64) \<le> available \<lparr>maxAlloc = maxAlloc_amd64, available = maxAlloc_amd64\<rparr> \<and>
   defaultSignature \<lparr>maxAlloc = maxAlloc_amd64, available = maxAlloc_amd64\<rparr> 3
     = Inr [infinity, infinity, infinity]"
proof -
  let ?rt = "\<lparr>maxAlloc = maxAlloc_amd64, available = maxAlloc_amd64\<rparr>"
  have h: "0 < sint (3 :: int64)" "8 * sint (3 :: int64) \<le> maxAlloc ?rt"
    "8 * sint (3 :: int64) \<le> available ?rt"
    by (simp_all add: maxAlloc_amd64_def)
  obtain s where s: "defaultSignature ?rt 3 = Inr s" "int (length s) = sint (3 :: int64)"
    "\<forall>x \<in> set s. x = infinity"
    using defaultSignature_all_infinity [OF h] by auto
  from s(2) have "length s = Suc (Suc (Suc 0))" by simp
  then obtain a b c where "s = [a, b, c]"
    by (auto simp: length_Suc_conv)
  with s(3) have "s = [infinity, infinity, infinity]" by simp
  with s(1) h show ?thesis by simp
qed

text \<open>
  C8.  The claim holds for the dynamic types \<^verbatim>\<open>uint64\<close> and \<^verbatim>\<open>int64\<close> only.  For
  each of the other six types the type switch lists (\<^verbatim>\<open>uint\<close>, \<^verbatim>\<open>uint16\<close>,
  \<^verbatim>\<open>uint32\<close>, \<^verbatim>\<open>int\<close>, \<^verbatim>\<open>int16\<close>, \<^verbatim>\<open>int32\<close>) the assertion
  \<^verbatim>\<open>t.(uint64)\<close> or \<^verbatim>\<open>t.(int64)\<close> panics; so does \<^verbatim>\<open>toBytes(int(1))\<close>.
\<close>

theorem toBytes_listed_integer_kinds:
  "toBytes (VUint64 a) = Inr (le_bytes8 a) \<and>
   toBytes (VInt64 b) = Inr (le_bytes8 b) \<and>
   toBytes (VInt 1) = Inl InterfaceConversion \<and>
   toBytes (VUint u) = Inl InterfaceConversion \<and>
   toBytes (VUint16 u16) = Inl InterfaceConversion \<and>
   toBytes (VUint32 u32) = Inl InterfaceConversion \<and>
   toBytes (VInt i) = Inl InterfaceConversion \<and>
   toBytes (VInt16 i16) = Inl InterfaceConversion \<and>
   toBytes (VInt32 i32) = Inl InterfaceConversion"
  by (simp add: toBytes_uint64 toBytes_int64) (simp add: toBytes_def)

text \<open>
  C9.  For a byte slice \<open>b\<close>, \<^verbatim>\<open>toBytes(b)\<close> returns \<open>b\<close>: the 8-byte buffer is
  dropped, nothing is padded or cut.  Hence some results of \<^verbatim>\<open>toBytes\<close> are not 8
  bytes long.
\<close>

theorem toBytes_bytes_unchanged:
  "toBytes (VBytes b) = Inr b \<and>
   (\<exists>c r. toBytes (VBytes c) = Inr r \<and> length r \<noteq> 8)"
proof -
  have eq: "\<And>t. toBytes (VBytes t) = Inr t"
    by (simp add: toBytes_def)
  have "toBytes (VBytes [1, 2, 3]) = Inr [1, 2, 3] \<and> length [1, 2, 3 :: byte] \<noteq> 8"
    by (simp add: eq)
  then show ?thesis
    using eq by blast
qed

text \<open>
  C5.  \<^verbatim>\<open>stringIntToByte\<close> never panics.  When \<^verbatim>\<open>strconv.ParseUint(s, 0, 64)\<close>
  returns \<open>n\<close> with a \<^verbatim>\<open>nil\<close> error, the result is the 8-byte little-endian encoding
  of \<open>n\<close>; when it returns an error, the result is the bytes of \<open>s\<close> itself.
\<close>

theorem stringIntToByte_total:
  "stringIntToByte s =
     Inr (case ParseUint s 0 64 of
            (n, None) \<Rightarrow> le_bytes8 n
          | (n, Some err) \<Rightarrow> bytes_of_string s)"
  by (simp add: stringIntToByte_def toBytes_uint64 split: prod.split option.split)

text \<open>
  C6, as claimed, fails: with base 0 the leading \<open>0\<close> of \<open>012\<close> is the octal prefix,
  so \<open>012\<close> parses to 10 and \<open>12\<close> to 12, and the two encodings differ.
\<close>

theorem stringIntToByte_12_012_counterexample:
  "\<not> (stringIntToByte ''12'' = stringIntToByte ''012'' \<and>
      stringIntToByte ''12x'' \<noteq> stringIntToByte ''12'' \<and>
      stringIntToByte ''12x'' \<noteq> stringIntToByte ''012'')"
proof -
  have "stringIntToByte ''12'' \<noteq> stringIntToByte ''012''"
    by code_simp
  then show ?thesis by simp
qed

text \<open>
  C6, amended.  \<open>12\<close> is encoded as the integer 12 and \<open>012\<close> as the integer 10 (octal),
  so they do not collide; \<open>014\<close> (octal 12) does collide with \<open>12\<close>.  \<open>12x\<close> does not
  parse and is returned as its three text bytes, which differ from both encodings.
\<close>

theorem stringIntToByte_collisions:
  "stringIntToByte ''12'' = Inr [12, 0, 0, 0, 0, 0, 0, 0] \<and>
   stringIntToByte ''012'' = Inr [10, 0, 0, 0, 0, 0, 0, 0] \<and>
   stringIntToByte ''12'' \<noteq> stringIntToByte ''012'' \<and>
   stringIntToByte ''014'' = stringIntToByte ''12'' \<and>
   stringIntToByte ''12x'' = Inr [49, 50, 120] \<and>
   stringIntToByte ''12x'' \<noteq> stringIntToByte ''12'' \<and>
   stringIntToByte ''12x'' \<noteq> stringIntToByte ''012''"
proof -
  have a: "stringIntToByte ''12'' = Inr [12, 0, 0, 0, 0, 0, 0, 0]"
    by code_simp
  have b: "stringIntToByte ''012'' = Inr [10, 0, 0, 0, 0, 0, 0, 0]"
    by code_simp
  have c: "stringIntToByte ''014'' = Inr [12, 0, 0, 0, 0, 0, 0, 0]"
    by code_simp
  have d: "stringIntToByte ''12x'' = Inr [49, 50, 120]"
    by code_simp
  show ?thesis
    by (simp add: a b c d)
qed

section \<open>Properties of the MinWise sketch\<close>

lemma length_Ingest: "length (signature (Ingest e x)) = length (signature e)"
  by (simp add: Ingest_def)

lemma family_Ingest: "family (Ingest e x) = family e"
  by (simp add: Ingest_def)

lemma length_IngestAll: "length (signature (IngestAll e xs)) = length (signature e)"
  by (induction xs arbitrary: e) (simp_all add: length_Ingest)

lemma family_IngestAll: "family (IngestAll e xs) = family e"
  by (induction xs arbitrary: e) (simp_all add: family_Ingest)

lemma more_IngestAll: "SketchEngine.more (IngestAll e xs) = SketchEngine.more e"
  by (induction xs arbitrary: e) (simp_all add: Ingest_def)

lemma nth_Ingest:
  "j < length (signature e) \<Longrightarrow>
   signature (Ingest e x) ! j = min (signature e ! j) (slot (family e) (Suc j) x)"
  by (simp add: Ingest_def)

lemma Min_insert_min:
  fixes a :: "'a :: linorder"
  assumes "finite A"
  shows "Min (insert (min a b) A) = Min (insert a (insert b A))"
  using assms by (cases "A = {}") (simp_all add: min.assoc)

lemma nth_IngestAll:
  "j < length (signature e) \<Longrightarrow>
   signature (IngestAll e xs) ! j =
     Min (insert (signature e ! j) ((\<lambda>x. slot (family e) (Suc j) x) ` set xs))"
proof (induction xs arbitrary: e)
  case Nil
  then show ?case by simp
next
  case (Cons x xs)
  let ?f = "\<lambda>x. slot (family e) (Suc j) x"
  have "signature (IngestAll e (x # xs)) ! j =
      Min (insert (min (signature e ! j) (?f x)) (?f ` set xs))"
    using Cons by (simp add: length_Ingest family_Ingest nth_Ingest)
  also have "\<dots> = Min (insert (signature e ! j) (insert (?f x) (?f ` set xs)))"
    by (rule Min_insert_min) simp
  finally show ?case by simp
qed

text \<open>
  C1.  Let two sketches be built from the empty sketch of one hash family (hence with
  equal signature length), one by ingesting the elements \<open>xs\<close> of a set \<open>A\<close>, the
  other by ingesting the elements \<open>ys\<close> of a set \<open>B\<close>.  Merging them succeeds and gives
  exactly the sketch, slot by slot, that ingesting any enumeration \<open>zs\<close> of the union of
  \<open>A\<close> and \<open>B\<close> into the empty sketch gives.
\<close>

theorem Merge_is_union:
  assumes "set zs = set xs \<union> set ys"
  shows "Merge (IngestAll (NewSketch fam) xs) (IngestAll (NewSketch fam) ys)
         = Inr (IngestAll (NewSketch fam) zs)"
proof -
  let ?e = "NewSketch fam"
  let ?a = "IngestAll ?e xs" and ?b = "IngestAll ?e ys" and ?c = "IngestAll ?e zs"
  let ?n = "length (signature ?e)"
  have len: "length (signature ?a) = ?n" "length (signature ?b) = ?n"
    "length (signature ?c) = ?n"
    by (simp_all add: length_IngestAll)
  have slots: "map (\<lambda>j. min (signature ?a ! j) (signature ?b ! j)) [0..<?n] = signature ?c"
  proof (rule nth_equalityI)
    show "length (map (\<lambda>j. min (signature ?a ! j) (signature ?b ! j)) [0..<?n])
        = length (signature ?c)"
      by (simp add: len)
  next
    fix j
    assume "j < length (map (\<lambda>j. min (signature ?a ! j) (signature ?b ! j)) [0..<?n])"
    then have j: "j < ?n" by simp
    let ?f = "\<lambda>x. slot (family ?e) (Suc j) x"
    let ?s = "signature ?e ! j"
    have "min (signature ?a ! j) (signature ?b ! j) =
        min (Min (insert ?s (?f ` set xs))) (Min (insert ?s (?f ` set ys)))"
      using j by (simp only: nth_IngestAll)
    also have "\<dots> = Min (insert ?s (?f ` set xs) \<union> insert ?s (?f ` set ys))"
      by (rule Min_Un [symmetric]) simp_all
    also have "insert ?s (?f ` set xs) \<union> insert ?s (?f ` set ys) = insert ?s (?f ` set zs)"
      using assms by auto
    also have "Min \<dots> = signature ?c ! j"
      using j by (simp only: nth_IngestAll)
    finally show "map (\<lambda>j. min (signature ?a ! j) (signature ?b ! j)) [0..<?n] ! j
        = signature ?c ! j"
      using j by simp
  qed
  have "?a\<lparr>signature := signature ?c\<rparr> = ?c"
    by (rule SketchEngine.equality) (simp_all add: family_IngestAll more_IngestAll)
  then show ?thesis
    by (simp add: Merge_def len slots)
qed

theorem Merge_is_union_witness:
  "set [[1], [2, 3], [4 :: byte]] = set [[1], [2, 3]] \<union> set [[2, 3], [4]] \<and>
   Merge
     (IngestAll (NewSketch \<lparr>h1 = \<lambda>b. of_nat (length b), h2 = \<lambda>b. sum_list (map ucast b),
        fam_k = 3\<rparr>) [[1], [2, 3]])
     (IngestAll (NewSketch \<lparr>h1 = \<lambda>b. of_nat (length b), h2 = \<lambda>b. sum_list (map ucast b),
        fam_k = 3\<rparr>) [[2, 3], [4]])
     = Inr (IngestAll (NewSketch \<lparr>h1 = \<lambda>b. of_nat (length b),
              h2 = \<lambda>b. sum_list (map ucast b), fam_k = 3\<rparr>) [[1], [2, 3], [4]]) \<and>
   signature (IngestAll (NewSketch \<lparr>h1 = \<lambda>b. of_nat (length b),
       h2 = \<lambda>b. sum_list (map ucast b), fam_k = 3\<rparr>) [[1], [2, 3], [4]])
     = [2, 3, 4]"
proof -
  let ?fam = "\<lparr>h1 = \<lambda>b :: byte list. of_nat (length b) :: uint64,
    h2 = \<lambda>b :: byte list. sum_list (map ucast b) :: uint64, fam_k = 3\<rparr>"
  have s: "set [[1], [2, 3], [4 :: byte]] = set [[1], [2, 3]] \<union> set [[2, 3], [4]]"
    by auto
  have r: "signature (IngestAll (NewSketch ?fam) [[1], [2, 3], [4]]) = [2, 3, 4]"
    by code_simp
  show ?thesis
    using Merge_is_union [OF s, of ?fam] s r by simp
qed

section \<open>Properties of float64 rounding\<close>





























section \<open>Properties of Intersection\<close>













text \<open>
  C2.  Called with similarity 0 (the positive or the negative zero, which the comparison
  \<^verbatim>\<open>js == 0\<close> does not distinguish), \<^verbatim>\<open>Intersection\<close> returns 0 for all sizes.  The
  function has no failing path: the result is an \<^verbatim>\<open>int\<close>, returned normally.
\<close>

theorem Intersection_zero_similarity:
  "Intersection indef (Finite 0) n m = 0 \<and> Intersection indef NegZero n m = 0"
  by (simp add: Intersection_def float64_eq_def)

text \<open>
  C10.  \<^verbatim>\<open>Intersection\<close> is symmetric in its two sizes, for every similarity value
  (NaN and the infinities included) and all sizes.
\<close>

theorem Intersection_symmetric: "Intersection indef js n m = Intersection indef js m n"
  by (simp add: Intersection_def add.commute)







end
